theory Spec2Isabelle
  imports Main "HOL-Library.Sublist"
begin

section \<open>Data model\<close>

text \<open>
  The catalog answers with JSON documents. The client reads three members of the objects
  it finds in a listing: \<open>id\<close>, \<open>name\<close> and \<open>domain\<close> (a governance domain of
  \<open>/businessdomains\<close> is read through \<open>name\<close> and \<open>id\<close> only). An \<open>entry\<close> is such
  an object, typed as the docstring of \<open>__check_term_exists\<close> describes it: a dictionary
  with string-valued \<open>name\<close> and \<open>domain\<close> fields.
\<close>

record entry =
  e_id :: string
  e_name :: string
  e_domain :: string

text \<open>
  A JSON document is a listing \<open>{"value": [...]}\<close>, a single object, or an object with
  no \<open>value\<close> member (an error document, for instance).
\<close>

datatype json_doc = JListing "entry list" | JObject entry | JOther

text \<open>
  A response of the \<open>requests\<close> library: the status code and what \<open>response.json()\<close>
  gives; \<open>None\<close> stands for a body that is not JSON, where \<open>json()\<close> raises.
\<close>

record response =
  status_code :: int
  json :: "json_doc option"

text \<open>A row of the spreadsheet, as \<open>upload_glossary_terms\<close> reads it.\<close>

record term_record =
  t_name :: string
  t_description :: string
  t_status :: string
  t_domain :: string

text \<open>The body of a create request (\<open>term_payload\<close>).\<close>

record payload =
  p_name :: string
  p_description :: string
  p_status :: string
  p_domain :: string

type_synonym headers = "(string \<times> string) list"

datatype request =
    GET string headers
  | POST string payload headers
  | DELETE string headers

text \<open>
  Every \<open>raise Exception(...)\<close> of the source, named after its message, and the two
  exceptions that the subscripts and \<open>json()\<close> raise by themselves.
\<close>

datatype error =
    PermissionError
  | DomainPermissionError string
  | BothSelectors
  | NoSelector
  | NotFound string
  | KeyError string
  | JSONDecodeError

fun is_usage_error :: "error \<Rightarrow> bool" where
  "is_usage_error BothSelectors = True"
| "is_usage_error NoSelector = True"
| "is_usage_error e = False"

record manager =
  token :: string
  tenant_id :: string
  hdrs :: headers
  base_url :: string

definition PurviewGlossaryManager :: "string \<Rightarrow> string \<Rightarrow> headers \<Rightarrow> manager" where
  "PurviewGlossaryManager tok tid hs =
     \<lparr>token = tok, tenant_id = tid, hdrs = hs,
      base_url = ''https://'' @ tid @ ''-api.purview-service.microsoft.com/datagovernance/catalog''\<rparr>"

section \<open>The network\<close>

text \<open>
  The catalog is outside the program: it is a state \<open>'s\<close> and a function that answers a
  request and moves to a new state. The world is the catalog together with the list of
  requests sent so far, so that what was (not) sent can be stated. Log lines are not part
  of the model.
\<close>

record 's world =
  trace :: "request list"
  server :: 's

type_synonym 's http = "'s \<Rightarrow> request \<Rightarrow> response \<times> 's"

definition send :: "'s http \<Rightarrow> request \<Rightarrow> 's world \<Rightarrow> response \<times> 's world" where
  "send rsp req w =
     (case rsp (server w) req of
        (r, s') \<Rightarrow> (r, \<lparr>trace = trace w @ [req], server = s'\<rparr>))"

fun is_post :: "request \<Rightarrow> bool" where
  "is_post (POST u p h) = True"
| "is_post r = False"

definition creates :: "request list \<Rightarrow> request list" where
  "creates tr = filter is_post tr"

text \<open>\<open>response.json()\<close>, and the subscript \<open>["value"]\<close> on its result.\<close>

definition response_json :: "response \<Rightarrow> error + json_doc" where
  "response_json r = (case json r of None \<Rightarrow> Inl JSONDecodeError | Some j \<Rightarrow> Inr j)"

fun subscript_value :: "json_doc \<Rightarrow> error + entry list" where
  "subscript_value (JListing xs) = Inr xs"
| "subscript_value (JObject x) = Inl (KeyError ''value'')"
| "subscript_value JOther = Inl (KeyError ''value'')"

section \<open>The operations of the manager\<close>

definition get_all_glossary_terms ::
  "manager \<Rightarrow> 's http \<Rightarrow> 's world \<Rightarrow> (error + json_doc) \<times> 's world" where
  "get_all_glossary_terms self rsp w =
     (case send rsp (GET (base_url self @ ''/terms'') (hdrs self)) w of
        (r, w') \<Rightarrow>
          if status_code r = 403 then (Inl PermissionError, w')
          else (response_json r, w'))"

text \<open>
  \<open>domains[item["name"]] = item['id']\<close> for each item in turn: a later item overwrites
  an earlier one of the same name.
\<close>

definition domains_of :: "entry list \<Rightarrow> (string \<rightharpoonup> string)" where
  "domains_of xs = foldl (\<lambda>m item. m(e_name item \<mapsto> e_id item)) Map.empty xs"

definition get_all_domains ::
  "manager \<Rightarrow> 's http \<Rightarrow> 's world \<Rightarrow> (error + (string \<rightharpoonup> string)) \<times> 's world" where
  "get_all_domains self rsp w =
     (case send rsp (GET (base_url self @ ''/businessdomains'') (hdrs self)) w of
        (r, w') \<Rightarrow>
          if status_code r \<ge> 400 then (Inl PermissionError, w')
          else (case response_json r of
                  Inl e \<Rightarrow> (Inl e, w')
                | Inr j \<Rightarrow> (case subscript_value j of
                             Inl e \<Rightarrow> (Inl e, w')
                           | Inr xs \<Rightarrow> (Inr (domains_of xs), w'))))"

text \<open>
  Python's truth value of an optional string argument: \<open>None\<close> and the empty string are
  false.
\<close>

fun truthy :: "string option \<Rightarrow> bool" where
  "truthy None = False"
| "truthy (Some s) = (s \<noteq> [])"

datatype term_result = ById json_doc | ByName "entry list"

definition get_term ::
  "manager \<Rightarrow> 's http \<Rightarrow> string option \<Rightarrow> string option \<Rightarrow> 's world
     \<Rightarrow> (error + term_result) \<times> 's world" where
  "get_term self rsp term_id term_name w =
     (if truthy term_id \<and> truthy term_name then (Inl BothSelectors, w)
      else if truthy term_id then
        (case send rsp (GET (base_url self @ ''/terms/'' @ the term_id) (hdrs self)) w of
           (r, w') \<Rightarrow>
             if status_code r = 403 then (Inl PermissionError, w')
             else (case response_json r of
                     Inl e \<Rightarrow> (Inl e, w')
                   | Inr j \<Rightarrow> (Inr (ById j), w')))
      else if truthy term_name then
        (case get_all_glossary_terms self rsp w of
           (Inl e, w') \<Rightarrow> (Inl e, w')
         | (Inr j, w') \<Rightarrow>
             (case subscript_value j of
                Inl e \<Rightarrow> (Inl e, w')
              | Inr all_terms \<Rightarrow>
                  (let found = filter (\<lambda>t. e_name t = the term_name) all_terms
                   in if found \<noteq> [] then (Inr (ByName found), w')
                      else (Inl (NotFound (the term_name)), w'))))
      else (Inl NoSelector, w))"

text \<open>
  \<open>__check_term_exists\<close>: the loop over \<open>all_terms\<close>. Python's \<open>and\<close> evaluates
  \<open>all_domains[domain]\<close> only for an item whose name matches, so the lookup (and its
  \<open>KeyError\<close>) happens at the first such item and not before.
\<close>

fun check_term_exists ::
  "string \<Rightarrow> string \<Rightarrow> entry list \<Rightarrow> (string \<rightharpoonup> string) \<Rightarrow> error + bool" where
  "check_term_exists name domain [] all_domains = Inr False"
| "check_term_exists name domain (item # rest) all_domains =
     (if e_name item = name then
        (case all_domains domain of
           None \<Rightarrow> Inl (KeyError domain)
         | Some d \<Rightarrow> if e_domain item = d then Inr True
                     else check_term_exists name domain rest all_domains)
      else check_term_exists name domain rest all_domains)"

text \<open>
  \<open>__create_term\<close> (the batch path, with the snapshots of the caller). The payload is
  built, with its lookup \<open>all_domains[domain]\<close>, before the request is sent.
\<close>

definition create_term_in ::
  "manager \<Rightarrow> 's http \<Rightarrow> string \<Rightarrow> string \<Rightarrow> string \<Rightarrow> string \<Rightarrow> entry list
     \<Rightarrow> (string \<rightharpoonup> string) \<Rightarrow> 's world \<Rightarrow> (error + json_doc option) \<times> 's world" where
  "create_term_in self rsp name description status domain all_terms all_domains w =
     (case check_term_exists name domain all_terms all_domains of
        Inl e \<Rightarrow> (Inl e, w)
      | Inr True \<Rightarrow> (Inr None, w)
      | Inr False \<Rightarrow>
          (case all_domains domain of
             None \<Rightarrow> (Inl (KeyError domain), w)
           | Some d \<Rightarrow>
               (case send rsp
                       (POST (base_url self @ ''/terms'')
                          \<lparr>p_name = name, p_description = description,
                           p_status = status, p_domain = d\<rparr>
                          (hdrs self)) w of
                  (r, w') \<Rightarrow>
                    if status_code r = 403 then (Inl (DomainPermissionError domain), w')
                    else (case response_json r of
                            Inl e \<Rightarrow> (Inl e, w')
                          | Inr j \<Rightarrow> (Inr (Some j), w')))))"

text \<open>\<open>create_term\<close> (the single-term path): fresh snapshots, then the same steps.\<close>

definition create_term ::
  "manager \<Rightarrow> 's http \<Rightarrow> string \<Rightarrow> string \<Rightarrow> string \<Rightarrow> string \<Rightarrow> 's world
     \<Rightarrow> (error + json_doc option) \<times> 's world" where
  "create_term self rsp name description status domain w =
     (case get_all_glossary_terms self rsp w of
        (Inl e, w1) \<Rightarrow> (Inl e, w1)
      | (Inr j, w1) \<Rightarrow>
          (case subscript_value j of
             Inl e \<Rightarrow> (Inl e, w1)
           | Inr all_terms \<Rightarrow>
               (case get_all_domains self rsp w1 of
                  (Inl e, w2) \<Rightarrow> (Inl e, w2)
                | (Inr all_domains, w2) \<Rightarrow>
                    (case check_term_exists name domain all_terms all_domains of
                       Inl e \<Rightarrow> (Inl e, w2)
                     | Inr True \<Rightarrow> (Inr None, w2)
                     | Inr False \<Rightarrow>
                         (case all_domains domain of
                            None \<Rightarrow> (Inl (KeyError domain), w2)
                          | Some d \<Rightarrow>
                              (case send rsp
                                      (POST (base_url self @ ''/terms'')
                                         \<lparr>p_name = name, p_description = description,
                                          p_status = status, p_domain = d\<rparr>
                                         (hdrs self)) w2 of
                                 (r, w') \<Rightarrow>
                                   if status_code r = 403
                                   then (Inl (DomainPermissionError domain), w')
                                   else (case response_json r of
                                           Inl e \<Rightarrow> (Inl e, w')
                                         | Inr j' \<Rightarrow> (Inr (Some j'), w'))))))))"

text \<open>The loop of \<open>upload_glossary_terms\<close>: an exception ends it.\<close>

fun upload_loop ::
  "manager \<Rightarrow> 's http \<Rightarrow> term_record list \<Rightarrow> entry list \<Rightarrow> (string \<rightharpoonup> string)
     \<Rightarrow> 's world \<Rightarrow> (error + unit) \<times> 's world" where
  "upload_loop self rsp [] all_terms all_domains w = (Inr (), w)"
| "upload_loop self rsp (term # terms) all_terms all_domains w =
     (case create_term_in self rsp (t_name term) (t_description term) (t_status term)
             (t_domain term) all_terms all_domains w of
        (Inl e, w') \<Rightarrow> (Inl e, w')
      | (Inr created, w') \<Rightarrow> upload_loop self rsp terms all_terms all_domains w')"

definition upload_glossary_terms ::
  "manager \<Rightarrow> 's http \<Rightarrow> term_record list \<Rightarrow> 's world \<Rightarrow> (error + unit) \<times> 's world" where
  "upload_glossary_terms self rsp terms w =
     (case get_all_glossary_terms self rsp w of
        (Inl e, w1) \<Rightarrow> (Inl e, w1)
      | (Inr j, w1) \<Rightarrow>
          (case subscript_value j of
             Inl e \<Rightarrow> (Inl e, w1)
           | Inr all_terms \<Rightarrow>
               (case get_all_domains self rsp w1 of
                  (Inl e, w2) \<Rightarrow> (Inl e, w2)
                | (Inr all_domains, w2) \<Rightarrow>
                    upload_loop self rsp terms all_terms all_domains w2)))"

definition delete_glossary_term ::
  "manager \<Rightarrow> 's http \<Rightarrow> string \<Rightarrow> 's world \<Rightarrow> (error + int) \<times> 's world" where
  "delete_glossary_term self rsp term_id w =
     (case send rsp (DELETE (base_url self @ ''/terms/'' @ term_id) (hdrs self)) w of
        (r, w') \<Rightarrow> (Inr (status_code r), w'))"

text \<open>
  The loop of \<open>delete_all_glossary_term\<close>: both branches on the status only log, so the
  loop goes on to the next term.
\<close>

fun delete_loop ::
  "manager \<Rightarrow> 's http \<Rightarrow> entry list \<Rightarrow> 's world \<Rightarrow> (error + unit) \<times> 's world" where
  "delete_loop self rsp [] w = (Inr (), w)"
| "delete_loop self rsp (term # terms) w =
     (case delete_glossary_term self rsp (e_id term) w of
        (Inl e, w') \<Rightarrow> (Inl e, w')
      | (Inr del_response, w') \<Rightarrow> delete_loop self rsp terms w')"

definition delete_all_glossary_term ::
  "manager \<Rightarrow> 's http \<Rightarrow> 's world \<Rightarrow> (error + unit) \<times> 's world" where
  "delete_all_glossary_term self rsp w =
     (case get_all_glossary_terms self rsp w of
        (Inl e, w1) \<Rightarrow> (Inl e, w1)
      | (Inr all_terms, w1) \<Rightarrow>
          (case subscript_value all_terms of
             Inl e \<Rightarrow> (Inl e, w1)
           | Inr xs \<Rightarrow> delete_loop self rsp xs w1))"

section \<open>A catalog for the scenarios\<close>




section \<open>Notions used in the statements\<close>


definition in_snapshot :: "entry list \<Rightarrow> string \<Rightarrow> string \<Rightarrow> bool" where
  "in_snapshot snap n d = (\<exists>e \<in> set snap. e_name e = n \<and> e_domain e = d)"





section \<open>Concrete inputs\<close>

text \<open>
  A manager, catalog entries, rows and a domains mapping for the scenarios, and three
  small catalogs: one that gives the same answer to every request, one that lists its
  terms and refuses to delete one of them, one that answers a single URL and forbids
  everything else.
\<close>

definition constant_http :: "response \<Rightarrow> 's http" where
  "constant_http r s req = (r, s)"

fun forbid_delete_http :: "entry list \<Rightarrow> string \<Rightarrow> unit http" where
  "forbid_delete_http xs bad s (GET u h) =
     (\<lparr>status_code = 200, json = Some (JListing xs)\<rparr>, s)"
| "forbid_delete_http xs bad s (DELETE u h) =
     (if u = bad then (\<lparr>status_code = 403, json = None\<rparr>, s)
      else (\<lparr>status_code = 204, json = None\<rparr>, s))"
| "forbid_delete_http xs bad s (POST u p h) =
     (\<lparr>status_code = 403, json = None\<rparr>, s)"

fun forbidden_except :: "string \<Rightarrow> entry list \<Rightarrow> unit http" where
  "forbidden_except good xs s (GET u h) =
     (if u = good then (\<lparr>status_code = 200, json = Some (JListing xs)\<rparr>, s)
      else (\<lparr>status_code = 403, json = None\<rparr>, s))"
| "forbidden_except good xs s (POST u p h) = (\<lparr>status_code = 403, json = None\<rparr>, s)"
| "forbidden_except good xs s (DELETE u h) = (\<lparr>status_code = 403, json = None\<rparr>, s)"

definition contoso :: manager where
  "contoso = PurviewGlossaryManager ''tok'' ''contoso'' [(''Authorization'', ''Bearer tok'')]"

definition w0 :: "unit world" where
  "w0 = \<lparr>trace = [], server = ()\<rparr>"

definition revenue_entry :: entry where
  "revenue_entry = \<lparr>e_id = ''t1'', e_name = ''Revenue'', e_domain = ''dom-123''\<rparr>"

definition three_terms :: "entry list" where
  "three_terms = [\<lparr>e_id = ''a'', e_name = ''A'', e_domain = ''d''\<rparr>,
                  \<lparr>e_id = ''b'', e_name = ''B'', e_domain = ''d''\<rparr>,
                  \<lparr>e_id = ''c'', e_name = ''C'', e_domain = ''d''\<rparr>]"

definition finance_domains :: "string \<rightharpoonup> string" where
  "finance_domains = [''Finance'' \<mapsto> ''dom-123'']"

definition revenue_record :: term_record where
  "revenue_record = \<lparr>t_name = ''Revenue'', t_description = ''Income'', t_status = ''Draft'',
                      t_domain = ''Finance''\<rparr>"






section \<open>Helper lemmas\<close>

lemma subscript_value_error:
  "subscript_value j = Inl e \<Longrightarrow> e = KeyError ''value''"
  by (cases j) auto

lemma check_resolved:
  "all_domains domain = Some d \<Longrightarrow>
   check_term_exists name domain all_terms all_domains = Inr (in_snapshot all_terms name d)"
  by (induction all_terms) (auto simp add: in_snapshot_def)

lemma check_unresolved:
  "all_domains domain = None \<Longrightarrow>
   check_term_exists name domain all_terms all_domains =
     (if \<exists>item \<in> set all_terms. e_name item = name then Inl (KeyError domain)
      else Inr False)"
  by (induction all_terms) auto

lemma trace_get_all_glossary_terms:
  "get_all_glossary_terms self rsp w = (res, w') \<Longrightarrow>
   trace w' = trace w @ [GET (base_url self @ ''/terms'') (hdrs self)]"
  by (auto simp add: get_all_glossary_terms_def send_def split: prod.splits if_splits)

lemma trace_get_all_domains:
  "get_all_domains self rsp w = (res, w') \<Longrightarrow>
   trace w' = trace w @ [GET (base_url self @ ''/businessdomains'') (hdrs self)]"
  by (auto simp add: get_all_domains_def send_def split: prod.splits if_splits sum.splits)

lemma create_term_in_unresolved:
  "all_domains domain = None \<Longrightarrow>
   create_term_in self rsp name description status domain all_terms all_domains w
     = (Inl (KeyError domain), w)"
  by (simp add: create_term_in_def check_unresolved)

lemma create_term_in_present:
  "all_domains domain = Some d \<Longrightarrow> in_snapshot all_terms name d \<Longrightarrow>
   create_term_in self rsp name description status domain all_terms all_domains w
     = (Inr None, w)"
  by (simp add: create_term_in_def check_resolved)

lemma create_term_in_post:
  "all_domains domain = Some d \<Longrightarrow> \<not> in_snapshot all_terms name d \<Longrightarrow>
   trace (snd (create_term_in self rsp name description status domain
                 all_terms all_domains w))
     = trace w @ [POST (base_url self @ ''/terms'')
                    \<lparr>p_name = name, p_description = description,
                     p_status = status, p_domain = d\<rparr> (hdrs self)]"
  by (simp add: create_term_in_def check_resolved send_def response_json_def
      split: prod.splits option.splits)












lemma delete_loop_all:
  "fst (delete_loop self rsp xs w) = Inr () \<and>
   trace (snd (delete_loop self rsp xs w))
     = trace w @ map (\<lambda>t. DELETE (base_url self @ ''/terms/'' @ e_id t) (hdrs self)) xs"
  by (induction xs arbitrary: w)
     (simp_all add: delete_glossary_term_def send_def split: prod.splits)

section \<open>The existence check\<close>

text \<open>
  C1. When the domain name is a key of the domains mapping, \<open>__check_term_exists\<close>
  returns (without raising) the truth value of: some entry of the snapshot has the given
  name and the id that the mapping gives to the domain name. So it is true for every
  (name, domain) present in the snapshot and false for every one that is not. The function
  takes and returns no world: it sends nothing.
\<close>

theorem check_term_exists_iff:
  "all_domains domain = Some d \<Longrightarrow>
   check_term_exists name domain all_terms all_domains =
     Inr (\<exists>item \<in> set all_terms. e_name item = name \<and> e_domain item = d)"
  by (induction all_terms) auto

text \<open>
  C1, on the snapshot of the scenarios: Revenue is in the Finance domain, Cost is not.
\<close>

theorem check_term_exists_iff_witness:
  "finance_domains ''Finance'' = Some ''dom-123'' \<and>
   check_term_exists ''Revenue'' ''Finance'' [revenue_entry] finance_domains = Inr True \<and>
   check_term_exists ''Cost'' ''Finance'' [revenue_entry] finance_domains = Inr False"
proof -
  have h: "finance_domains ''Finance'' = Some ''dom-123''"
    by (simp add: finance_domains_def)
  show ?thesis
    using h
      check_term_exists_iff [of finance_domains "''Finance''" "''dom-123''" "''Revenue''" "[revenue_entry]"]
      check_term_exists_iff [of finance_domains "''Finance''" "''dom-123''" "''Cost''" "[revenue_entry]"]
    by (simp add: revenue_entry_def)
qed

text \<open>
  C4, as stated, fails: with the domain name absent from the mapping, the check returns
  false on an empty snapshot and on a snapshot where no name matches.
\<close>

theorem check_term_exists_absent_domain_counterexample:
  "Map.empty ''Finance'' = None \<and>
   check_term_exists ''Revenue'' ''Finance'' [] Map.empty = Inr False \<and>
   check_term_exists ''Cost'' ''Finance'' [revenue_entry] Map.empty = Inr False"
  by (simp add: revenue_entry_def)

text \<open>
  C4, amended. When the domain name is absent from the domains mapping,
  \<open>__check_term_exists\<close> raises the lookup error exactly when some entry of the snapshot
  has the given name; otherwise (an empty snapshot, or no entry of that name) it returns
  false.
\<close>

theorem check_term_exists_absent_domain:
  "all_domains domain = None \<Longrightarrow>
   check_term_exists name domain all_terms all_domains =
     (if \<exists>item \<in> set all_terms. e_name item = name then Inl (KeyError domain)
      else Inr False)"
  by (induction all_terms) auto

text \<open>
  C4, amended, on a snapshot that holds Revenue only.
\<close>

theorem check_term_exists_absent_domain_witness:
  "Map.empty ''Finance'' = None \<and>
   check_term_exists ''Revenue'' ''Finance'' [revenue_entry] Map.empty
     = Inl (KeyError ''Finance'') \<and>
   check_term_exists ''Cost'' ''Finance'' [revenue_entry] Map.empty = Inr False"
  using check_term_exists_absent_domain [of Map.empty "''Finance''" "''Revenue''" "[revenue_entry]"]
    check_term_exists_absent_domain [of Map.empty "''Finance''" "''Cost''" "[revenue_entry]"]
  by (simp add: revenue_entry_def)

section \<open>Listing the terms\<close>

text \<open>
  C5, as stated, fails: on status 500 with a JSON body, \<open>get_all_glossary_terms\<close>
  returns that body and raises nothing.
\<close>

theorem get_all_glossary_terms_status_counterexample:
  "(500::int) \<ge> 400 \<and> (500::int) \<noteq> 403 \<and>
   fst (get_all_glossary_terms contoso
          (constant_http \<lparr>status_code = 500, json = Some JOther\<rparr>)
          w0) = Inr JOther"
  by (simp add: w0_def get_all_glossary_terms_def send_def constant_http_def response_json_def)

text \<open>
  C5, amended. \<open>get_all_glossary_terms\<close> raises the permission error when the catalog
  answers 403. For every other status, also one of 400 or more, it does not look at the
  status: it returns the JSON body of the response, and fails only where the body is not
  JSON (the error of \<open>json()\<close>).
\<close>

theorem get_all_glossary_terms_status:
  "send rsp (GET (base_url self @ ''/terms'') (hdrs self)) w = (r, w') \<Longrightarrow>
   get_all_glossary_terms self rsp w =
     (if status_code r = 403 then (Inl PermissionError, w')
      else case json r of
             None \<Rightarrow> (Inl JSONDecodeError, w')
           | Some j \<Rightarrow> (Inr j, w'))"
  by (simp add: get_all_glossary_terms_def response_json_def split: option.splits)

text \<open>
  C5, amended, on a catalog that answers 403.
\<close>

theorem get_all_glossary_terms_status_witness:
  "send (constant_http \<lparr>status_code = 403, json = None\<rparr>)
     (GET (base_url contoso @ ''/terms'') (hdrs contoso)) w0
     = (\<lparr>status_code = 403, json = None\<rparr>,
        \<lparr>trace = [GET (base_url contoso @ ''/terms'') (hdrs contoso)], server = ()\<rparr>) \<and>
   get_all_glossary_terms contoso (constant_http \<lparr>status_code = 403, json = None\<rparr>)
     w0
     = (Inl PermissionError,
        \<lparr>trace = [GET (base_url contoso @ ''/terms'') (hdrs contoso)], server = ()\<rparr>)"
proof -
  have h: "send (constant_http \<lparr>status_code = 403, json = None\<rparr>)
     (GET (base_url contoso @ ''/terms'') (hdrs contoso)) w0
     = (\<lparr>status_code = 403, json = None\<rparr>,
        \<lparr>trace = [GET (base_url contoso @ ''/terms'') (hdrs contoso)], server = ()\<rparr>)"
    by (simp add: w0_def send_def constant_http_def)
  show ?thesis
    using h get_all_glossary_terms_status [OF h] by simp
qed

section \<open>Selecting a term\<close>

text \<open>
  C7. \<open>get_term\<close> called with both selectors supplied, or with neither supplied, raises
  a usage error and leaves the world as it was: no request is sent. A selector counts as
  supplied when it is true in Python's sense, which is what the guard tests: \<open>None\<close>
  and the empty string are not supplied (C10 is about the empty string).
\<close>

theorem get_term_selectors:
  "truthy term_id = truthy term_name \<Longrightarrow>
   get_term self rsp term_id term_name w
     = (Inl (if truthy term_id then BothSelectors else NoSelector), w) \<and>
   is_usage_error (if truthy term_id then BothSelectors else NoSelector)"
  by (simp add: get_term_def)

text \<open>
  C7, with both selectors given and with none.
\<close>

theorem get_term_selectors_witness:
  "truthy (Some ''t1'') = truthy (Some ''Revenue'') \<and>
   truthy None = truthy None \<and>
   get_term contoso
     (constant_http \<lparr>status_code = 200, json = Some (JListing [revenue_entry])\<rparr>)
     (Some ''t1'') (Some ''Revenue'') w0
   = (Inl BothSelectors, w0) \<and>
   get_term contoso
     (constant_http \<lparr>status_code = 200, json = Some (JListing [revenue_entry])\<rparr>)
     None None w0
   = (Inl NoSelector, w0)"
  using get_term_selectors [of "Some ''t1''" "Some ''Revenue''" contoso
      "constant_http \<lparr>status_code = 200, json = Some (JListing [revenue_entry])\<rparr>"
      "w0"]
    get_term_selectors [of None None contoso
      "constant_http \<lparr>status_code = 200, json = Some (JListing [revenue_entry])\<rparr>"
      "w0"]
  by (simp add: w0_def)

text \<open>
  C10. The check of the selectors tests truth, not presence. With \<open>term_id\<close> the empty
  string and a non-empty name, \<open>get_term\<close> does what it does with no \<open>term_id\<close>: it
  is not rejected as "both", and the name branch runs (it fetches the terms). With both
  selectors the empty string, it raises the "neither" error, and sends nothing.
\<close>

theorem get_term_truthiness:
  "term_name \<noteq> [] \<Longrightarrow>
   get_term self rsp (Some []) (Some term_name) w
     = get_term self rsp None (Some term_name) w \<and>
   fst (get_term self rsp (Some []) (Some term_name) w) \<noteq> Inl BothSelectors \<and>
   trace (snd (get_term self rsp (Some []) (Some term_name) w))
     = trace w @ [GET (base_url self @ ''/terms'') (hdrs self)] \<and>
   get_term self rsp (Some []) (Some []) w = (Inl NoSelector, w)"
  by (auto simp add: get_term_def get_all_glossary_terms_def send_def response_json_def Let_def
      split: prod.splits sum.splits option.splits dest: subscript_value_error)

text \<open>
  C10, on a catalog that lists Revenue.
\<close>

theorem get_term_truthiness_witness:
  "''Revenue'' \<noteq> [] \<and>
   get_term contoso
     (constant_http \<lparr>status_code = 200, json = Some (JListing [revenue_entry])\<rparr>)
     (Some []) (Some ''Revenue'') w0
   = (Inr (ByName [revenue_entry]),
      \<lparr>trace = [GET (base_url contoso @ ''/terms'') (hdrs contoso)], server = ()\<rparr>) \<and>
   get_term contoso
     (constant_http \<lparr>status_code = 200, json = Some (JListing [revenue_entry])\<rparr>)
     (Some []) (Some []) w0
   = (Inl NoSelector, w0)"
  using get_term_truthiness [of "''Revenue''" contoso
      "constant_http \<lparr>status_code = 200, json = Some (JListing [revenue_entry])\<rparr>"
      "w0"]
  by (simp add: w0_def get_term_def get_all_glossary_terms_def send_def constant_http_def
      response_json_def revenue_entry_def)

section \<open>Creating a term\<close>

text \<open>
  C3. For a row whose domain name resolves to an id: if the snapshot has an entry with the
  name of the row and that id, \<open>__create_term\<close> sends nothing and returns \<open>None\<close>
  without error; otherwise it sends exactly one request, the create request whose body
  has the name, description and status of the row and the resolved id as domain. So a term
  is created only if no entry of the snapshot has both its name and its resolved id.
\<close>

theorem create_term_in_once:
  "all_domains domain = Some d \<Longrightarrow>
   ((\<exists>item \<in> set all_terms. e_name item = name \<and> e_domain item = d) \<longrightarrow>
      create_term_in self rsp name description status domain all_terms all_domains w
        = (Inr None, w)) \<and>
   (\<not> (\<exists>item \<in> set all_terms. e_name item = name \<and> e_domain item = d) \<longrightarrow>
      trace (snd (create_term_in self rsp name description status domain
                    all_terms all_domains w))
        = trace w @ [POST (base_url self @ ''/terms'')
                       \<lparr>p_name = name, p_description = description,
                        p_status = status, p_domain = d\<rparr> (hdrs self)])"
proof (cases "in_snapshot all_terms name d")
  case True
  assume "all_domains domain = Some d"
  with True have "create_term_in self rsp name description status domain all_terms
                    all_domains w = (Inr None, w)"
    by (simp add: create_term_in_present)
  moreover from True
  have "\<exists>item \<in> set all_terms. e_name item = name \<and> e_domain item = d"
    by (simp add: in_snapshot_def)
  ultimately show ?thesis by blast
next
  case False
  assume "all_domains domain = Some d"
  with False have "trace (snd (create_term_in self rsp name description status domain
                    all_terms all_domains w))
        = trace w @ [POST (base_url self @ ''/terms'')
                       \<lparr>p_name = name, p_description = description,
                        p_status = status, p_domain = d\<rparr> (hdrs self)]"
    by (simp add: create_term_in_post)
  moreover from False
  have "\<not> (\<exists>item \<in> set all_terms. e_name item = name \<and> e_domain item = d)"
    by (simp add: in_snapshot_def)
  ultimately show ?thesis by blast
qed

text \<open>
  C3, on the two scenarios: Revenue already in the snapshot, and an empty snapshot.
\<close>

theorem create_term_in_once_witness:
  "finance_domains ''Finance'' = Some ''dom-123'' \<and>
   create_term_in contoso (constant_http \<lparr>status_code = 201, json = Some (JObject revenue_entry)\<rparr>)
     ''Revenue'' ''Income'' ''Draft'' ''Finance'' [revenue_entry] finance_domains
     w0 = (Inr None, w0) \<and>
   trace (snd (create_term_in contoso
     (constant_http \<lparr>status_code = 201, json = Some (JObject revenue_entry)\<rparr>)
     ''Revenue'' ''Income'' ''Draft'' ''Finance'' [] finance_domains
     w0))
   = [POST (base_url contoso @ ''/terms'')
        \<lparr>p_name = ''Revenue'', p_description = ''Income'', p_status = ''Draft'',
         p_domain = ''dom-123''\<rparr> (hdrs contoso)]"
  using
    create_term_in_once [of finance_domains "''Finance''" "''dom-123''" "[revenue_entry]"
      "''Revenue''" contoso
      "constant_http \<lparr>status_code = 201, json = Some (JObject revenue_entry)\<rparr>"
      "''Income''" "''Draft''" "w0"]
    create_term_in_once [of finance_domains "''Finance''" "''dom-123''" "[]"
      "''Revenue''" contoso
      "constant_http \<lparr>status_code = 201, json = Some (JObject revenue_entry)\<rparr>"
      "''Income''" "''Draft''" "w0"]
  by (simp add: w0_def finance_domains_def revenue_entry_def)

text \<open>
  C6. For a row whose domain name is absent from the domains mapping, \<open>__create_term\<close>
  raises the lookup error of the domain name and leaves the world as it was; and
  \<open>create_term\<close>, once it has fetched a snapshot and a mapping without that name, raises
  the same error having sent its two reads and no create request.
\<close>

theorem create_unresolved_domain:
  "(all_domains domain = None \<longrightarrow>
      create_term_in self rsp name description status domain all_terms all_domains w
        = (Inl (KeyError domain), w)) \<and>
   (get_all_glossary_terms self rsp w = (Inr j, w1) \<and> subscript_value j = Inr snapshot \<and>
    get_all_domains self rsp w1 = (Inr fetched, w2) \<and> fetched domain = None \<longrightarrow>
      create_term self rsp name description status domain w = (Inl (KeyError domain), w2) \<and>
      trace w2 = trace w @ [GET (base_url self @ ''/terms'') (hdrs self),
                            GET (base_url self @ ''/businessdomains'') (hdrs self)] \<and>
      creates (trace w2) = creates (trace w))"
proof (intro conjI impI)
  assume "all_domains domain = None"
  then show "create_term_in self rsp name description status domain all_terms all_domains w
        = (Inl (KeyError domain), w)"
    by (rule create_term_in_unresolved)
next
  assume a: "get_all_glossary_terms self rsp w = (Inr j, w1) \<and> subscript_value j = Inr snapshot \<and>
    get_all_domains self rsp w1 = (Inr fetched, w2) \<and> fetched domain = None"
  then show "create_term self rsp name description status domain w = (Inl (KeyError domain), w2)"
    by (simp add: create_term_def check_unresolved)
  from a show t: "trace w2 = trace w @ [GET (base_url self @ ''/terms'') (hdrs self),
                            GET (base_url self @ ''/businessdomains'') (hdrs self)]"
    using trace_get_all_glossary_terms [of self rsp w "Inr j" w1]
      trace_get_all_domains [of self rsp w1 "Inr fetched" w2]
    by simp
  show "creates (trace w2) = creates (trace w)"
    by (simp add: t creates_def)
qed

text \<open>
  C6, on a catalog whose domains listing has no Finance.
\<close>

theorem create_unresolved_domain_witness:
  "Map.empty ''Finance'' = None \<and>
   create_term_in contoso (constant_http \<lparr>status_code = 200, json = Some (JListing [revenue_entry])\<rparr>)
     ''Revenue'' ''Income'' ''Draft'' ''Finance'' [revenue_entry] Map.empty w0
     = (Inl (KeyError ''Finance''), w0) \<and>
   domains_of [revenue_entry] ''Finance'' = None \<and>
   create_term contoso (constant_http \<lparr>status_code = 200, json = Some (JListing [revenue_entry])\<rparr>)
     ''Revenue'' ''Income'' ''Draft'' ''Finance'' w0
     = (Inl (KeyError ''Finance''),
        \<lparr>trace = [GET (base_url contoso @ ''/terms'') (hdrs contoso),
                  GET (base_url contoso @ ''/businessdomains'') (hdrs contoso)], server = ()\<rparr>) \<and>
   creates [GET (base_url contoso @ ''/terms'') (hdrs contoso),
            GET (base_url contoso @ ''/businessdomains'') (hdrs contoso)] = []"
  using create_unresolved_domain [of Map.empty "''Finance''" contoso
      "constant_http \<lparr>status_code = 200, json = Some (JListing [revenue_entry])\<rparr>"
      "''Revenue''" "''Income''" "''Draft''" "[revenue_entry]" w0
      "JListing [revenue_entry]"
      "\<lparr>trace = [GET (base_url contoso @ ''/terms'') (hdrs contoso)], server = ()\<rparr>"
      "[revenue_entry]" "domains_of [revenue_entry]"
      "\<lparr>trace = [GET (base_url contoso @ ''/terms'') (hdrs contoso),
                GET (base_url contoso @ ''/businessdomains'') (hdrs contoso)], server = ()\<rparr>"]
  by (simp add: w0_def get_all_glossary_terms_def get_all_domains_def send_def
      constant_http_def response_json_def domains_of_def revenue_entry_def creates_def)

section \<open>The batch upload\<close>

text \<open>
  C8. If the catalog answers 403 to the listing of the terms, or, the terms listed, to the
  listing of the domains, \<open>upload_glossary_terms\<close> raises the permission error, and the
  requests it has sent are these reads only: no create request.
\<close>

theorem upload_aborts_on_forbidden_listing:
  "(status_code (fst (rsp (server w) (GET (base_url self @ ''/terms'') (hdrs self)))) = 403 \<longrightarrow>
      fst (upload_glossary_terms self rsp terms w) = Inl PermissionError \<and>
      trace (snd (upload_glossary_terms self rsp terms w))
        = trace w @ [GET (base_url self @ ''/terms'') (hdrs self)] \<and>
      creates (trace (snd (upload_glossary_terms self rsp terms w))) = creates (trace w)) \<and>
   (get_all_glossary_terms self rsp w = (Inr j, w1) \<and> subscript_value j = Inr all_terms \<and>
    status_code (fst (rsp (server w1) (GET (base_url self @ ''/businessdomains'') (hdrs self))))
      = 403 \<longrightarrow>
      fst (upload_glossary_terms self rsp terms w) = Inl PermissionError \<and>
      trace (snd (upload_glossary_terms self rsp terms w))
        = trace w @ [GET (base_url self @ ''/terms'') (hdrs self),
                     GET (base_url self @ ''/businessdomains'') (hdrs self)] \<and>
      creates (trace (snd (upload_glossary_terms self rsp terms w))) = creates (trace w))"
proof (intro conjI impI)
  assume a: "status_code (fst (rsp (server w) (GET (base_url self @ ''/terms'') (hdrs self)))) = 403"
  then have g: "get_all_glossary_terms self rsp w
      = (Inl PermissionError,
         \<lparr>trace = trace w @ [GET (base_url self @ ''/terms'') (hdrs self)],
          server = snd (rsp (server w) (GET (base_url self @ ''/terms'') (hdrs self)))\<rparr>)"
    by (simp add: get_all_glossary_terms_def send_def case_prod_unfold)
  show "fst (upload_glossary_terms self rsp terms w) = Inl PermissionError"
    by (simp add: upload_glossary_terms_def g)
  show "trace (snd (upload_glossary_terms self rsp terms w))
        = trace w @ [GET (base_url self @ ''/terms'') (hdrs self)]"
    by (simp add: upload_glossary_terms_def g)
  show "creates (trace (snd (upload_glossary_terms self rsp terms w))) = creates (trace w)"
    by (simp add: upload_glossary_terms_def g creates_def)
next
  assume a: "get_all_glossary_terms self rsp w = (Inr j, w1) \<and> subscript_value j = Inr all_terms \<and>
    status_code (fst (rsp (server w1) (GET (base_url self @ ''/businessdomains'') (hdrs self))))
      = 403"
  then have t1: "trace w1 = trace w @ [GET (base_url self @ ''/terms'') (hdrs self)]"
    using trace_get_all_glossary_terms [of self rsp w "Inr j" w1] by simp
  from a have g: "get_all_domains self rsp w1
      = (Inl PermissionError,
         \<lparr>trace = trace w1 @ [GET (base_url self @ ''/businessdomains'') (hdrs self)],
          server = snd (rsp (server w1) (GET (base_url self @ ''/businessdomains'') (hdrs self)))\<rparr>)"
    by (simp add: get_all_domains_def send_def case_prod_unfold)
  from a show "fst (upload_glossary_terms self rsp terms w) = Inl PermissionError"
    by (simp add: upload_glossary_terms_def g)
  from a show "trace (snd (upload_glossary_terms self rsp terms w))
        = trace w @ [GET (base_url self @ ''/terms'') (hdrs self),
                     GET (base_url self @ ''/businessdomains'') (hdrs self)]"
    by (simp add: upload_glossary_terms_def g t1)
  from a show "creates (trace (snd (upload_glossary_terms self rsp terms w))) = creates (trace w)"
    by (simp add: upload_glossary_terms_def g t1 creates_def)
qed

text \<open>
  C8, on a catalog that forbids everything and on one that lists the terms only.
\<close>

theorem upload_aborts_on_forbidden_listing_witness:
  "status_code (fst (constant_http \<lparr>status_code = 403, json = None\<rparr> (server w0)
       (GET (base_url contoso @ ''/terms'') (hdrs contoso)))) = 403 \<and>
   upload_glossary_terms contoso (constant_http \<lparr>status_code = 403, json = None\<rparr>)
       [revenue_record] w0
     = (Inl PermissionError,
        \<lparr>trace = [GET (base_url contoso @ ''/terms'') (hdrs contoso)], server = ()\<rparr>) \<and>
   status_code (fst (forbidden_except (base_url contoso @ ''/terms'') [] ()
       (GET (base_url contoso @ ''/businessdomains'') (hdrs contoso)))) = 403 \<and>
   upload_glossary_terms contoso (forbidden_except (base_url contoso @ ''/terms'') [])
       [revenue_record] w0
     = (Inl PermissionError,
        \<lparr>trace = [GET (base_url contoso @ ''/terms'') (hdrs contoso),
                  GET (base_url contoso @ ''/businessdomains'') (hdrs contoso)], server = ()\<rparr>)"
  using
    upload_aborts_on_forbidden_listing [of "constant_http \<lparr>status_code = 403, json = None\<rparr>"
      w0 contoso "[revenue_record]"]
    upload_aborts_on_forbidden_listing [of "forbidden_except (base_url contoso @ ''/terms'') []"
      w0 contoso "[revenue_record]" "JListing []"
      "\<lparr>trace = [GET (base_url contoso @ ''/terms'') (hdrs contoso)], server = ()\<rparr>" "[]"]
  by (simp add: w0_def upload_glossary_terms_def get_all_glossary_terms_def get_all_domains_def
      send_def constant_http_def response_json_def contoso_def
      PurviewGlossaryManager_def)




section \<open>Deleting terms\<close>

text \<open>
  C9. \<open>delete_glossary_term\<close> returns the status code of the response, whatever it
  is, and raises nothing. So \<open>delete_all_glossary_term\<close>, once the terms are listed,
  sends one delete request for every listed term, in order, whatever the answers, and
  returns without error.
\<close>

theorem delete_all_best_effort:
  "delete_glossary_term self rsp term_id w
     = (Inr (status_code (fst (send rsp (DELETE (base_url self @ ''/terms/'' @ term_id)
                                           (hdrs self)) w))),
        snd (send rsp (DELETE (base_url self @ ''/terms/'' @ term_id) (hdrs self)) w)) \<and>
   (get_all_glossary_terms self rsp w = (Inr j, w1) \<and> subscript_value j = Inr xs \<longrightarrow>
      fst (delete_all_glossary_term self rsp w) = Inr () \<and>
      trace (snd (delete_all_glossary_term self rsp w))
        = trace w1 @ map (\<lambda>t. DELETE (base_url self @ ''/terms/'' @ e_id t) (hdrs self)) xs)"
  by (simp add: delete_glossary_term_def delete_all_glossary_term_def delete_loop_all
      split: prod.splits)

text \<open>
  C9, on three terms where the catalog refuses to delete the second.
\<close>

theorem delete_all_best_effort_witness:
  "delete_glossary_term contoso (forbid_delete_http three_terms (base_url contoso @ ''/terms/b''))
     ''b'' w0
     = (Inr 403, \<lparr>trace = [DELETE (base_url contoso @ ''/terms/b'') (hdrs contoso)], server = ()\<rparr>) \<and>
   get_all_glossary_terms contoso (forbid_delete_http three_terms (base_url contoso @ ''/terms/b'')) w0
     = (Inr (JListing three_terms),
        \<lparr>trace = [GET (base_url contoso @ ''/terms'') (hdrs contoso)], server = ()\<rparr>) \<and>
   fst (delete_all_glossary_term contoso
          (forbid_delete_http three_terms (base_url contoso @ ''/terms/b'')) w0) = Inr () \<and>
   trace (snd (delete_all_glossary_term contoso
          (forbid_delete_http three_terms (base_url contoso @ ''/terms/b'')) w0))
     = [GET (base_url contoso @ ''/terms'') (hdrs contoso),
        DELETE (base_url contoso @ ''/terms/a'') (hdrs contoso),
        DELETE (base_url contoso @ ''/terms/b'') (hdrs contoso),
        DELETE (base_url contoso @ ''/terms/c'') (hdrs contoso)]"
  using delete_all_best_effort [of contoso
      "forbid_delete_http three_terms (base_url contoso @ ''/terms/b'')" "''b''" w0
      "JListing three_terms"
      "\<lparr>trace = [GET (base_url contoso @ ''/terms'') (hdrs contoso)], server = ()\<rparr>" three_terms]
  by (simp add: w0_def get_all_glossary_terms_def send_def response_json_def three_terms_def)

end
